theory Spec2Isabelle
  imports Complex_Main
begin

section \<open>Conventions of the embedding\<close>

text \<open>
  The handlers of \<^verbatim>\<open>src/routes/adminOrders.js\<close> and of the stock router
  (\<^verbatim>\<open>src/unnamed/part_002\<close>) are translated as functions from the request and the
  collections they read to the HTTP response and the collections they leave behind.

  \<^item> A collection is the list of its documents, in insertion order.
  \<^item> A JavaScript Number is read as an exact rational (\<^typ>\<open>rat\<close>): every
    arithmetic fact below is about the exact value of the expression the source
    evaluates, not about its IEEE-754 rounding.
  \<^item> An ObjectId is a natural number.
  \<^item> \<^verbatim>\<open>order.save()\<close> runs the validators that \<^verbatim>\<open>src/models/Order.js\<close> declares
    and the unique indexes on \<^verbatim>\<open>orderNumber\<close> and \<^verbatim>\<open>invoiceNumber\<close>; a validator
    or an index that refuses the document makes \<^verbatim>\<open>save\<close> throw, which every handler
    catches and answers with status 500.
  \<^item> Authentication and authorisation run before the handlers and are outside the
    model; the authenticated user arrives as the parameter \<open>user\<close>.
\<close>

type_synonym objectId = nat

datatype 'a response =
    Created 'a
  | Ok 'a
  | ValidationErrors
  | BadRequest string
  | NotFound string
  | ServerError

fun status_code :: "'a response \<Rightarrow> nat" where
  "status_code (Created _) = 201"
| "status_code (Ok _) = 200"
| "status_code ValidationErrors = 400"
| "status_code (BadRequest _) = 400"
| "status_code (NotFound _) = 404"
| "status_code ServerError = 500"

subsection \<open>Strings of the JavaScript runtime\<close>

definition digit_char :: "nat \<Rightarrow> char" where
  "digit_char d = ''0123456789'' ! d"

text \<open>\<^verbatim>\<open>String(n)\<close> for a non-negative integer: its decimal digits.\<close>

fun String_of :: "nat \<Rightarrow> string" where
  "String_of n =
     (if n < 10 then [digit_char n] else String_of (n div 10) @ [digit_char (n mod 10)])"

declare String_of.simps [simp del]

text \<open>\<^verbatim>\<open>s.padStart(w, '0')\<close>: zeros in front up to width \<open>w\<close>, nothing cut off.\<close>

definition padStart :: "nat \<Rightarrow> string \<Rightarrow> string" where
  "padStart w s = replicate (w - length s) (CHR ''0'') @ s"

text \<open>
  The query \<^verbatim>\<open>{ $regex: `^${prefix}` }\<close>, for a prefix made of letters and digits only:
  the field begins with the prefix.
\<close>

definition startsWith :: "string \<Rightarrow> string \<Rightarrow> bool" where
  "startsWith p s = (take (length p) s = p)"

text \<open>The whitespace that \<^verbatim>\<open>trim()\<close> removes at both ends (ASCII range).\<close>

definition is_space :: "char \<Rightarrow> bool" where
  "is_space c = (c \<in> set [CHR '' '', CHR 0x09, CHR 0x0A, CHR 0x0B, CHR 0x0C, CHR 0x0D])"

definition trim :: "string \<Rightarrow> string" where
  "trim s = rev (dropWhile is_space (rev (dropWhile is_space s)))"

text \<open>Truthiness of an optional string: \<^verbatim>\<open>undefined\<close> and \<^verbatim>\<open>''\<close> are falsy.\<close>

fun truthy :: "string option \<Rightarrow> bool" where
  "truthy None = False"
| "truthy (Some s) = (s \<noteq> [])"

section \<open>Data model\<close>

text \<open>\<^verbatim>\<open>src/models/Product.js\<close>: the fields the order and stock handlers touch.\<close>

record product =
  p_oid :: objectId
  p_id :: string
  p_name :: string
  p_price :: rat
  p_unit :: string
  inStock :: bool

text \<open>\<^verbatim>\<open>src/models/Order.js\<close>, \<^verbatim>\<open>orderItemSchema\<close> and \<^verbatim>\<open>orderSchema\<close>.\<close>

record order_item =
  product :: objectId
  productName :: string
  sku :: string
  quantity :: rat
  unit :: string
  unitPrice :: rat
  discount :: rat
  gstRate :: rat
  gstAmount :: rat
  totalAmount :: rat

record customer =
  customer_name :: string
  phone :: "string option"
  email :: "string option"
  address :: "string option"
  gstin :: "string option"

record order =
  oid :: objectId
  orderNumber :: string
  invoiceNumber :: "string option"
  customer :: customer
  items :: "order_item list"
  subtotal :: rat
  totalDiscount :: rat
  totalGst :: rat
  grandTotal :: rat
  paymentMethod :: string
  paymentStatus :: string
  amountPaid :: rat
  amountDue :: rat
  status :: string
  order_notes :: "string option"
  createdBy :: objectId
  processedBy :: "objectId option"

text \<open>\<^verbatim>\<open>new Date()\<close>, as far as the number generators read it.\<close>

record date =
  getFullYear :: nat
  getMonth :: nat

subsection \<open>Schema validators of \<^verbatim>\<open>src/models/Order.js\<close>\<close>

definition paymentMethod_enum :: "string list" where
  "paymentMethod_enum = [''cash'', ''card'', ''upi'', ''bank_transfer'', ''credit'']"

definition paymentStatus_enum :: "string list" where
  "paymentStatus_enum = [''pending'', ''partial'', ''paid'']"

definition status_enum :: "string list" where
  "status_enum = [''draft'', ''confirmed'', ''processing'', ''completed'', ''cancelled'']"

text \<open>
  \<^verbatim>\<open>orderItemSchema\<close>: \<^verbatim>\<open>required\<close> on a String refuses the empty string,
  \<^verbatim>\<open>min\<close> refuses a smaller number.
\<close>

definition order_item_valid :: "order_item \<Rightarrow> bool" where
  "order_item_valid i \<longleftrightarrow>
     productName i \<noteq> [] \<and> sku i \<noteq> [] \<and> 1 \<le> quantity i \<and> unit i \<noteq> [] \<and>
     0 \<le> unitPrice i \<and> 0 \<le> discount i"

fun notes_valid :: "string option \<Rightarrow> bool" where
  "notes_valid None = True"
| "notes_valid (Some s) = (length s \<le> 1000)"

definition order_valid :: "order \<Rightarrow> bool" where
  "order_valid d \<longleftrightarrow>
     orderNumber d \<noteq> [] \<and>
     customer_name (customer d) \<noteq> [] \<and>
     list_all order_item_valid (items d) \<and>
     0 \<le> subtotal d \<and> 0 \<le> totalDiscount d \<and> 0 \<le> totalGst d \<and> 0 \<le> grandTotal d \<and>
     paymentMethod d \<in> set paymentMethod_enum \<and>
     paymentStatus d \<in> set paymentStatus_enum \<and>
     0 \<le> amountPaid d \<and> 0 \<le> amountDue d \<and>
     status d \<in> set status_enum \<and>
     notes_valid (order_notes d)"

text \<open>
  The unique indexes: no other document has the same \<^verbatim>\<open>orderNumber\<close>; the index on
  \<^verbatim>\<open>invoiceNumber\<close> is sparse, so it only constrains documents that have one.
\<close>

definition index_ok :: "order list \<Rightarrow> order \<Rightarrow> bool" where
  "index_ok db d \<longleftrightarrow>
     list_all (\<lambda>x. oid x = oid d \<or>
        (orderNumber x \<noteq> orderNumber d \<and>
         (case invoiceNumber d of None \<Rightarrow> True | Some n \<Rightarrow> invoiceNumber x \<noteq> Some n))) db"

definition new_oid :: "order list \<Rightarrow> objectId" where
  "new_oid db = Suc (fold max (map oid db) 0)"

text \<open>\<^verbatim>\<open>order.save()\<close> of a new document and of a document read from the collection.\<close>

definition save_new :: "order list \<Rightarrow> order \<Rightarrow> order list option" where
  "save_new db d = (if order_valid d \<and> index_ok db d then Some (db @ [d]) else None)"

definition save_existing :: "order list \<Rightarrow> order \<Rightarrow> order list option" where
  "save_existing db d =
     (if order_valid d \<and> index_ok db d
      then Some (map (\<lambda>x. if oid x = oid d then d else x) db) else None)"

definition findById :: "order list \<Rightarrow> objectId \<Rightarrow> order option" where
  "findById db i = find (\<lambda>x. oid x = i) db"

definition findOne :: "product list \<Rightarrow> string \<Rightarrow> product option" where
  "findOne ps pid = find (\<lambda>p. p_id p = pid) ps"

section \<open>Sequence generator (\<^verbatim>\<open>src/models/Order.js\<close>)\<close>

text \<open>
  \<^verbatim>\<open>
  const prefix = `ORD${today.getFullYear()}${String(today.getMonth() + 1).padStart(2, '0')}`;
  const count = await this.countDocuments({ orderNumber: { $regex: `^${prefix}` } });
  return `${prefix}${String(count + 1).padStart(4, '0')}`;
  \<close>
\<close>

definition period_prefix :: "string \<Rightarrow> date \<Rightarrow> string" where
  "period_prefix scope today =
     scope @ String_of (getFullYear today) @ padStart 2 (String_of (getMonth today + 1))"

definition generateOrderNumber :: "date \<Rightarrow> order list \<Rightarrow> string" where
  "generateOrderNumber today db =
     (let prefix = period_prefix ''ORD'' today;
          count = length (filter (\<lambda>d. startsWith prefix (orderNumber d)) db)
      in prefix @ padStart 4 (String_of (count + 1)))"

definition generateInvoiceNumber :: "date \<Rightarrow> order list \<Rightarrow> string" where
  "generateInvoiceNumber today db =
     (let prefix = period_prefix ''INV'' today;
          count = length (filter (\<lambda>d. case invoiceNumber d of None \<Rightarrow> False
                                        | Some n \<Rightarrow> startsWith prefix n) db)
      in prefix @ padStart 4 (String_of (count + 1)))"

section \<open>Order handlers (\<^verbatim>\<open>src/routes/adminOrders.js\<close>)\<close>

text \<open>
  \<^verbatim>\<open>paid >= grandTotal ? 'paid' : paid > 0 ? 'partial' : 'pending'\<close>, the expression
  of lines 85 and 100.
\<close>

definition payment_status :: "rat \<Rightarrow> rat \<Rightarrow> string" where
  "payment_status paid g =
     (if paid \<ge> g then ''paid'' else if paid > 0 then ''partial'' else ''pending'')"

record req_item =
  productId :: string
  req_quantity :: rat

record create_req =
  cr_customer :: customer
  cr_items :: "req_item list"
  cr_paymentMethod :: "string option"
  cr_notes :: "string option"
  cr_amountPaid :: "rat option"

text \<open>
  The pricing loop of lines 72 to 82, with its three accumulators; a product that is
  not found leaves the handler with status 400.
\<close>

fun process_items ::
  "product list \<Rightarrow> req_item list \<Rightarrow> rat \<times> rat \<times> order_item list
     \<Rightarrow> string + rat \<times> rat \<times> order_item list" where
  "process_items ps [] acc = Inr acc"
| "process_items ps (item # rest) (subtotal_acc, totalGst_acc, processedItems) =
     (case findOne ps (productId item) of
        None \<Rightarrow> Inl (''Product not found: '' @ productId item)
      | Some p \<Rightarrow>
          (let itemTotal = p_price p * req_quantity item;
               gst = (itemTotal * 18) / 100
           in process_items ps rest
                (subtotal_acc + itemTotal, totalGst_acc + gst,
                 processedItems @
                   [\<lparr>product = p_oid p, productName = p_name p, sku = p_id p,
                     quantity = req_quantity item, unit = p_unit p, unitPrice = p_price p,
                     discount = 0, gstRate = 18, gstAmount = gst,
                     totalAmount = itemTotal + gst\<rparr>])))"

text \<open>\<^verbatim>\<open>amountPaid || 0\<close> and \<^verbatim>\<open>paymentMethod || 'cash'\<close>.\<close>

fun or_zero :: "rat option \<Rightarrow> rat" where
  "or_zero None = 0"
| "or_zero (Some a) = a"

fun or_default :: "string option \<Rightarrow> string \<Rightarrow> string" where
  "or_default None d = d"
| "or_default (Some s) d = (if s = [] then d else s)"

text \<open>The document that line 85 builds, before it is saved.\<close>

definition new_order ::
  "objectId \<Rightarrow> objectId \<Rightarrow> string \<Rightarrow> create_req \<Rightarrow> rat \<times> rat \<times> order_item list \<Rightarrow> order" where
  "new_order i user number req acc =
     (case acc of (subtotal_acc, totalGst_acc, processedItems) \<Rightarrow>
        (let grandTotal_v = subtotal_acc + totalGst_acc;
             paid = or_zero (cr_amountPaid req)
         in \<lparr>oid = i, orderNumber = number, invoiceNumber = None,
              customer = cr_customer req, items = processedItems,
              subtotal = subtotal_acc, totalDiscount = 0, totalGst = totalGst_acc,
              grandTotal = grandTotal_v,
              paymentMethod = or_default (cr_paymentMethod req) ''cash'',
              paymentStatus = payment_status paid grandTotal_v,
              amountPaid = paid, amountDue = grandTotal_v - paid,
              status = ''confirmed'', order_notes = cr_notes req,
              createdBy = user, processedBy = None\<rparr>))"

text \<open>
  \<^verbatim>\<open>router.post('/')\<close>. The two request validators come first
  (\<^verbatim>\<open>body('customer.name').trim().notEmpty()\<close>, \<^verbatim>\<open>body('items').isArray({ min: 1 })\<close>);
  the sanitiser \<^verbatim>\<open>trim()\<close> writes the trimmed name back into the request.
\<close>

definition create_order ::
  "date \<Rightarrow> objectId \<Rightarrow> product list \<Rightarrow> order list \<Rightarrow> create_req
     \<Rightarrow> order response \<times> order list" where
  "create_order today user ps db req0 =
     (let req = req0\<lparr>cr_customer :=
                  (cr_customer req0)\<lparr>customer_name := trim (customer_name (cr_customer req0))\<rparr>\<rparr>
      in if customer_name (cr_customer req) = [] \<or> cr_items req = [] then (ValidationErrors, db)
         else
           (let number = generateOrderNumber today db
            in case process_items ps (cr_items req) (0, 0, []) of
                 Inl msg \<Rightarrow> (BadRequest msg, db)
               | Inr acc \<Rightarrow>
                   (let d = new_order (new_oid db) user number req acc
                    in case save_new db d of
                         None \<Rightarrow> (ServerError, db)
                       | Some db' \<Rightarrow> (Created d, db'))))"

record update_req =
  ur_status :: "string option"
  ur_amountPaid :: "rat option"
  ur_notes :: "string option"

text \<open>Lines 98 to 102: the assignments of \<^verbatim>\<open>router.put('/:id')\<close>, in their order.\<close>

definition apply_update :: "objectId \<Rightarrow> update_req \<Rightarrow> order \<Rightarrow> order" where
  "apply_update user req d0 =
     (let d1 = (if truthy (ur_status req) then d0\<lparr>status := the (ur_status req)\<rparr> else d0);
          d2 = (case ur_amountPaid req of
                  None \<Rightarrow> d1
                | Some a \<Rightarrow> d1\<lparr>amountPaid := a, amountDue := grandTotal d1 - a,
                                paymentStatus := payment_status a (grandTotal d1)\<rparr>);
          d3 = (if truthy (ur_notes req) then d2\<lparr>order_notes := ur_notes req\<rparr> else d2)
      in d3\<lparr>processedBy := Some user\<rparr>)"

definition update_order ::
  "objectId \<Rightarrow> order list \<Rightarrow> objectId \<Rightarrow> update_req \<Rightarrow> order response \<times> order list" where
  "update_order user db i req =
     (case findById db i of
        None \<Rightarrow> (NotFound ''Order not found'', db)
      | Some d0 \<Rightarrow>
          (let d = apply_update user req d0
           in case save_existing db d of
                None \<Rightarrow> (ServerError, db)
              | Some db' \<Rightarrow> (Ok d, db')))"

text \<open>\<^verbatim>\<open>router.post('/:id/invoice')\<close>, lines 111 to 123.\<close>

definition issue_invoice ::
  "date \<Rightarrow> order list \<Rightarrow> objectId \<Rightarrow> order response \<times> order list" where
  "issue_invoice today db i =
     (case findById db i of
        None \<Rightarrow> (NotFound ''Order not found'', db)
      | Some d0 \<Rightarrow>
          if truthy (invoiceNumber d0) then (BadRequest ''Invoice exists'', db)
          else
            (let d = d0\<lparr>invoiceNumber := Some (generateInvoiceNumber today db),
                        status := ''completed''\<rparr>
             in case save_existing db d of
                  None \<Rightarrow> (ServerError, db)
                | Some db' \<Rightarrow> (Ok d, db')))"

section \<open>Stock ledger (\<^verbatim>\<open>src/unnamed/part_002\<close>, schema in \<^verbatim>\<open>src/unnamed/part_000\<close>)\<close>

text \<open>
  \<^verbatim>\<open>stockMovementSchema\<close>. The request validators admit whole quantities only
  (\<^verbatim>\<open>isInt({ min: 1 })\<close>), so quantities and stock snapshots are integers.
\<close>

record stock_movement =
  mv_product :: objectId
  mv_type :: string
  mv_quantity :: int
  previousStock :: int
  newStock :: int
  mv_unitPrice :: "rat option"
  mv_totalValue :: "rat option"
  supplier_name :: "string option"
  supplier_invoiceNo :: "string option"
  mv_notes :: "string option"
  mv_createdBy :: objectId

definition movement_type_enum :: "string list" where
  "movement_type_enum = [''stock_in'', ''stock_out'', ''adjustment'', ''return'', ''damage'']"

fun min0 :: "rat option \<Rightarrow> bool" where
  "min0 None = True"
| "min0 (Some v) = (0 \<le> v)"

fun maxlength :: "nat \<Rightarrow> string option \<Rightarrow> bool" where
  "maxlength n None = True"
| "maxlength n (Some s) = (length s \<le> n)"

definition movement_valid :: "stock_movement \<Rightarrow> bool" where
  "movement_valid m \<longleftrightarrow>
     mv_type m \<in> set movement_type_enum \<and> 1 \<le> mv_quantity m \<and>
     min0 (mv_unitPrice m) \<and> min0 (mv_totalValue m) \<and> maxlength 500 (mv_notes m)"

text \<open>
  \<^verbatim>\<open>product.save()\<close> after the handler has assigned the flag \<^verbatim>\<open>inStock\<close> of a document
  it read from the collection: the document replaces the stored one.
\<close>

definition save_product :: "product list \<Rightarrow> product \<Rightarrow> product list" where
  "save_product ps p = map (\<lambda>x. if p_oid x = p_oid p then p else x) ps"


text \<open>\<^verbatim>\<open>notes || reason\<close>.\<close>

definition or_else :: "string option \<Rightarrow> string option \<Rightarrow> string option" where
  "or_else a b = (if truthy a then a else b)"



record stock_out_req =
  so_productId :: string
  so_quantity :: int
  so_reason :: "string option"
  so_notes :: "string option"

text \<open>
  \<^verbatim>\<open>router.post('/out')\<close>, lines 180 to 241:
  \<^verbatim>\<open>
  const previousStock = product.inStock ? quantity : 0;
  const newStock = Math.max(0, previousStock - quantity);
  ...
  if (newStock <= 0) { product.inStock = false; await product.save(); }
  \<close>
\<close>

definition stock_out ::
  "objectId \<Rightarrow> product list \<Rightarrow> stock_movement list \<Rightarrow> stock_out_req
     \<Rightarrow> stock_movement response \<times> product list \<times> stock_movement list" where
  "stock_out user ps ms req =
     (if so_productId req = [] \<or> so_quantity req < 1
      then (ValidationErrors, ps, ms)
      else case findOne ps (so_productId req) of
        None \<Rightarrow> (NotFound ''Product not found'', ps, ms)
      | Some p \<Rightarrow>
          (let previousStock_v = (if inStock p then so_quantity req else 0);
               newStock_v = max 0 (previousStock_v - so_quantity req);
               movement =
                 \<lparr>mv_product = p_oid p, mv_type = ''stock_out'', mv_quantity = so_quantity req,
                  previousStock = previousStock_v, newStock = newStock_v,
                  mv_unitPrice = Some (p_price p),
                  mv_totalValue = Some (p_price p * of_int (so_quantity req)),
                  supplier_name = None, supplier_invoiceNo = None,
                  mv_notes = or_else (so_notes req) (so_reason req), mv_createdBy = user\<rparr>
           in if \<not> movement_valid movement then (ServerError, ps, ms)
              else (Created movement,
                    (if newStock_v \<le> 0 then save_product ps (p\<lparr>inStock := False\<rparr>) else ps),
                    ms @ [movement])))"

record adjustment_req =
  ad_productId :: string
  ad_quantity :: int
  ad_type :: string
  ad_notes :: "string option"

text \<open>
  \<^verbatim>\<open>router.post('/adjustment')\<close>, lines 246 to 304:
  \<^verbatim>\<open>
  const previousStock = product.inStock ? 1 : 0;
  const newStock = type === 'return' ? previousStock + quantity
                                     : Math.max(0, previousStock - quantity);
  ...
  product.inStock = newStock > 0;
  \<close>
\<close>

definition stock_adjustment ::
  "objectId \<Rightarrow> product list \<Rightarrow> stock_movement list \<Rightarrow> adjustment_req
     \<Rightarrow> stock_movement response \<times> product list \<times> stock_movement list" where
  "stock_adjustment user ps ms req =
     (if ad_productId req = [] \<or> ad_quantity req < 1 \<or>
         ad_type req \<notin> set [''adjustment'', ''return'', ''damage'']
      then (ValidationErrors, ps, ms)
      else case findOne ps (ad_productId req) of
        None \<Rightarrow> (NotFound ''Product not found'', ps, ms)
      | Some p \<Rightarrow>
          (let previousStock_v = (if inStock p then 1 else 0);
               newStock_v = (if ad_type req = ''return'' then previousStock_v + ad_quantity req
                             else max 0 (previousStock_v - ad_quantity req));
               movement =
                 \<lparr>mv_product = p_oid p, mv_type = ad_type req, mv_quantity = ad_quantity req,
                  previousStock = previousStock_v, newStock = newStock_v,
                  mv_unitPrice = None, mv_totalValue = None,
                  supplier_name = None, supplier_invoiceNo = None,
                  mv_notes = ad_notes req, mv_createdBy = user\<rparr>
           in if \<not> movement_valid movement then (ServerError, ps, ms)
              else (Created movement, save_product ps (p\<lparr>inStock := (newStock_v > 0)\<rparr>),
                    ms @ [movement])))"

section \<open>The specification's own notions\<close>

text \<open>
  These definitions follow the words of the specification, not the code; the theorems
  compare the handlers with them.
\<close>


text \<open>Section 4.2: one priced line of an order, for the requested item it answers.\<close>

definition line_priced :: "product list \<Rightarrow> req_item \<Rightarrow> order_item \<Rightarrow> bool" where
  "line_priced ps it li \<longleftrightarrow>
     (case findOne ps (productId it) of
        None \<Rightarrow> False
      | Some p \<Rightarrow>
          unitPrice li = p_price p \<and> quantity li = req_quantity it \<and> discount li = 0 \<and>
          gstAmount li = (unitPrice li * quantity li) * 18 / 100 \<and>
          totalAmount li = unitPrice li * quantity li + gstAmount li)"


text \<open>Reading a decimal numeral, and what a zero-padded field of width \<open>w\<close> is.\<close>

definition is_digit :: "char \<Rightarrow> bool" where
  "is_digit c = (c \<in> set ''0123456789'')"

definition digit_val :: "char \<Rightarrow> nat" where
  "digit_val c = of_char c - 48"

definition parse_nat :: "string \<Rightarrow> nat" where
  "parse_nat s = foldl (\<lambda>a c. 10 * a + digit_val c) 0 s"

definition zero_padded :: "nat \<Rightarrow> nat \<Rightarrow> string \<Rightarrow> bool" where
  "zero_padded w n s \<longleftrightarrow>
     list_all is_digit s \<and> parse_nat s = n \<and> w \<le> length s \<and>
     (w < length s \<longrightarrow> hd s \<noteq> CHR ''0'')"



section \<open>Concrete scenarios\<close>

text \<open>The first two products of \<^verbatim>\<open>src/seedProducts.js\<close>.\<close>

definition seed_products :: "product list" where
  "seed_products =
     [\<lparr>p_oid = 1, p_id = ''s1'', p_name = ''TMT Bar - Grade 550D'', p_price = 65000,
       p_unit = ''Ton'', inStock = True\<rparr>,
      \<lparr>p_oid = 2, p_id = ''s2'', p_name = ''MS Square Pipes'', p_price = 58,
       p_unit = ''Kg'', inStock = True\<rparr>]"

definition nov_2026 :: date where
  "nov_2026 = \<lparr>getFullYear = 2026, getMonth = 10\<rparr>"

definition walk_in :: customer where
  "walk_in = \<lparr>customer_name = ''Ravi'', phone = None, email = None, address = None,
              gstin = None\<rparr>"


definition two_item_order :: order where
  "two_item_order =
     \<lparr>oid = 1, orderNumber = ''ORD2026110001'', invoiceNumber = None, customer = walk_in,
      items =
        [\<lparr>product = 1, productName = ''TMT Bar - Grade 550D'', sku = ''s1'', quantity = 2,
          unit = ''Ton'', unitPrice = 65000, discount = 0, gstRate = 18, gstAmount = 23400,
          totalAmount = 153400\<rparr>,
         \<lparr>product = 2, productName = ''MS Square Pipes'', sku = ''s2'', quantity = 10,
          unit = ''Kg'', unitPrice = 58, discount = 0, gstRate = 18, gstAmount = 522 / 5,
          totalAmount = 3422 / 5\<rparr>],
      subtotal = 130580, totalDiscount = 0, totalGst = 117522 / 5, grandTotal = 770422 / 5,
      paymentMethod = ''cash'', paymentStatus = ''partial'', amountPaid = 50000,
      amountDue = 520422 / 5, status = ''confirmed'', order_notes = None, createdBy = 9,
      processedBy = None\<rparr>"

text \<open>The same order after its invoice has been issued.\<close>

definition invoiced_order :: order where
  "invoiced_order =
     two_item_order\<lparr>invoiceNumber := Some ''INV2026110001'', status := ''completed''\<rparr>"

text \<open>The invoiced order after a status update to \<^verbatim>\<open>draft\<close> by user 9.\<close>

definition reopened_order :: order where
  "reopened_order = invoiced_order\<lparr>status := ''draft'', processedBy := Some 9\<rparr>"

text \<open>The first order after a status update to \<^verbatim>\<open>completed\<close>: no invoice number.\<close>

definition completed_uninvoiced :: order where
  "completed_uninvoiced = two_item_order\<lparr>status := ''completed'', processedBy := Some 9\<rparr>"




definition set_status :: "string \<Rightarrow> update_req" where
  "set_status s = \<lparr>ur_status = Some s, ur_amountPaid = None, ur_notes = None\<rparr>"

text \<open>An order for quantity zero of a known product.\<close>

definition zero_quantity_req :: create_req where
  "zero_quantity_req =
     \<lparr>cr_customer = walk_in, cr_items = [\<lparr>productId = ''s1'', req_quantity = 0\<rparr>],
      cr_paymentMethod = None, cr_notes = None, cr_amountPaid = None\<rparr>"






text \<open>
  A product out of stock with an empty ledger; four units come in, then ten are asked
  to go out.
\<close>

definition pipes_out_of_stock :: "product list" where
  "pipes_out_of_stock =
     [\<lparr>p_oid = 2, p_id = ''s2'', p_name = ''MS Square Pipes'', p_price = 58,
       p_unit = ''Kg'', inStock = False\<rparr>]"

definition pipes_in_stock :: "product list" where
  "pipes_in_stock =
     [\<lparr>p_oid = 2, p_id = ''s2'', p_name = ''MS Square Pipes'', p_price = 58,
       p_unit = ''Kg'', inStock = True\<rparr>]"


definition four_in_movement :: stock_movement where
  "four_in_movement =
     \<lparr>mv_product = 2, mv_type = ''stock_in'', mv_quantity = 4, previousStock = 0,
      newStock = 4, mv_unitPrice = Some 58, mv_totalValue = Some 232, supplier_name = None,
      supplier_invoiceNo = None, mv_notes = None, mv_createdBy = 9\<rparr>"

definition ten_out :: stock_out_req where
  "ten_out = \<lparr>so_productId = ''s2'', so_quantity = 10, so_reason = None, so_notes = None\<rparr>"

definition ten_out_movement :: stock_movement where
  "ten_out_movement =
     \<lparr>mv_product = 2, mv_type = ''stock_out'', mv_quantity = 10, previousStock = 10,
      newStock = 0, mv_unitPrice = Some 58, mv_totalValue = Some 580, supplier_name = None,
      supplier_invoiceNo = None, mv_notes = None, mv_createdBy = 9\<rparr>"


definition two_damaged :: adjustment_req where
  "two_damaged = \<lparr>ad_productId = ''s2'', ad_quantity = 2, ad_type = ''damage'',
                   ad_notes = None\<rparr>"


definition two_damaged_movement :: stock_movement where
  "two_damaged_movement =
     \<lparr>mv_product = 2, mv_type = ''damage'', mv_quantity = 2, previousStock = 1,
      newStock = 0, mv_unitPrice = None, mv_totalValue = None, supplier_name = None,
      supplier_invoiceNo = None, mv_notes = None, mv_createdBy = 9\<rparr>"

section \<open>Reading the handlers' results\<close>


lemma create_order_CreatedD:
  assumes "create_order today user ps db req = (Created d, db')"
  obtains acc where
    "process_items ps (cr_items req) (0, 0, []) = Inr acc"
    "d = new_order (new_oid db) user (generateOrderNumber today db)
           (req\<lparr>cr_customer :=
              (cr_customer req)\<lparr>customer_name := trim (customer_name (cr_customer req))\<rparr>\<rparr>) acc"
    "save_new db d = Some db'"
  using assms
  by (auto simp: create_order_def Let_def split: if_splits sum.splits option.splits)

lemma update_order_OkD:
  assumes "update_order user db i req = (Ok d, db')"
  obtains dz where "findById db i = Some dz" "d = apply_update user req dz"
    "save_existing db d = Some db'"
  using assms
  by (auto simp: update_order_def Let_def split: option.splits)

lemma save_new_valid: "save_new db d = Some db' \<Longrightarrow> order_valid d \<and> index_ok db d \<and> db' = db @ [d]"
  by (auto simp: save_new_def split: if_splits)

lemma save_existing_valid: "save_existing db d = Some db' \<Longrightarrow> order_valid d \<and> index_ok db d"
  by (auto simp: save_existing_def split: if_splits)

lemma new_order_fields:
  "paymentStatus (new_order i user number req acc) =
     payment_status (or_zero (cr_amountPaid req)) (grandTotal (new_order i user number req acc))"
  "amountPaid (new_order i user number req acc) = or_zero (cr_amountPaid req)"
  "amountDue (new_order i user number req acc) =
     grandTotal (new_order i user number req acc) - or_zero (cr_amountPaid req)"
  "grandTotal (new_order i user number req acc) = fst acc + fst (snd acc)"
  "subtotal (new_order i user number req acc) = fst acc"
  "totalGst (new_order i user number req acc) = fst (snd acc)"
  "items (new_order i user number req acc) = snd (snd acc)"
  by (cases acc; simp add: new_order_def Let_def)+



subsection \<open>Scenario evaluations\<close>


lemma find_two_item: "findById [two_item_order] 1 = Some two_item_order"
  by code_simp



section \<open>Payment status\<close>





section \<open>Order totals\<close>

text \<open>
  The pricing loop, started from any accumulators: it appends one priced line per
  requested item and adds the lines' amounts to the two running sums.
\<close>

lemma process_items_acc:
  "process_items ps its (s, g, pr) = Inr (s', g', pr') \<Longrightarrow>
     \<exists>new. pr' = pr @ new \<and> list_all2 (line_priced ps) its new \<and>
           s' = s + (\<Sum>li\<leftarrow>new. unitPrice li * quantity li) \<and>
           g' = g + (\<Sum>li\<leftarrow>new. gstAmount li)"
proof (induction its arbitrary: s g pr)
  case Nil
  then show ?case by simp
next
  case (Cons it its)
  from Cons.prems obtain p where p: "findOne ps (productId it) = Some p"
    by (auto split: option.splits)
  define li where "li = \<lparr>product = p_oid p, productName = p_name p, sku = p_id p,
                     quantity = req_quantity it, unit = p_unit p, unitPrice = p_price p,
                     discount = 0, gstRate = 18,
                     gstAmount = (p_price p * req_quantity it * 18) / 100,
                     totalAmount = p_price p * req_quantity it +
                       (p_price p * req_quantity it * 18) / 100\<rparr>"
  have step: "process_items ps its
          (s + p_price p * req_quantity it, g + (p_price p * req_quantity it * 18) / 100,
           pr @ [li]) = Inr (s', g', pr')"
    using Cons.prems p by (simp add: Let_def li_def)
  from Cons.IH [OF step] obtain new where new:
    "pr' = (pr @ [li]) @ new" "list_all2 (line_priced ps) its new"
    "s' = s + p_price p * req_quantity it + (\<Sum>li\<leftarrow>new. unitPrice li * quantity li)"
    "g' = g + (p_price p * req_quantity it * 18) / 100 + (\<Sum>li\<leftarrow>new. gstAmount li)"
    by blast
  have li: "line_priced ps it li"
    by (simp add: line_priced_def p li_def)
  have "pr' = pr @ (li # new)" using new(1) by simp
  moreover have "list_all2 (line_priced ps) (it # its) (li # new)" using li new(2) by simp
  moreover have "s' = s + (\<Sum>l\<leftarrow>li # new. unitPrice l * quantity l)"
    using new(3) by (simp add: li_def)
  moreover have "g' = g + (\<Sum>l\<leftarrow>li # new. gstAmount l)"
    using new(4) by (simp add: li_def)
  ultimately show ?case by blast
qed





section \<open>Amount due\<close>

lemma findById_oid: "findById db i = Some d \<Longrightarrow> oid d = i \<and> d \<in> set db"
  unfolding findById_def by (induction db) (auto split: if_splits)

lemma findById_replace:
  "findById db (oid d) = Some dz \<Longrightarrow>
     findById (map (\<lambda>x. if oid x = oid d then d else x) db) (oid d) = Some d"
  unfolding findById_def by (induction db) (auto split: if_splits)

lemma save_existing_persisted:
  "save_existing db d = Some db' \<Longrightarrow> findById db (oid d) = Some dz \<Longrightarrow>
     findById db' (oid d) = Some d"
  by (auto simp: save_existing_def findById_replace split: if_splits)


lemma create_order_unchanged:
  "create_order today user ps db req = (r, db') \<Longrightarrow> (\<And>d. r \<noteq> Created d) \<Longrightarrow> db' = db"
  by (auto simp: create_order_def Let_def split: if_splits sum.splits option.splits)






section \<open>Invoice issuance\<close>

lemma index_ok_fresh:
  "index_ok db d \<Longrightarrow> invoiceNumber d = Some n \<Longrightarrow> x \<in> set db \<Longrightarrow> oid x \<noteq> oid d \<Longrightarrow>
     invoiceNumber x \<noteq> Some n"
  by (auto simp: index_ok_def list_all_iff)

lemma issue_invoice_rejected:
  "findById db i = Some dz \<Longrightarrow> truthy (invoiceNumber dz) \<Longrightarrow>
     issue_invoice today db i = (BadRequest ''Invoice exists'', db)"
  by (simp add: issue_invoice_def)

lemma issue_invoice_OkD:
  assumes "issue_invoice today db i = (Ok d, db')"
  obtains dz where "findById db i = Some dz" "\<not> truthy (invoiceNumber dz)"
    "d = dz\<lparr>invoiceNumber := Some (generateInvoiceNumber today db), status := ''completed''\<rparr>"
    "save_existing db d = Some db'"
  using assms
  by (auto simp: issue_invoice_def Let_def split: option.splits if_splits)

lemma issue_first_invoice:
  "issue_invoice nov_2026 [two_item_order] 1 = (Ok invoiced_order, [invoiced_order])"
  by code_simp

lemma find_invoiced: "findById [invoiced_order] 1 = Some invoiced_order"
  by code_simp

text \<open>
  Claim C4. For every order whose invoiceNumber is already set, issuing an invoice is
  rejected (status 400, message \<^verbatim>\<open>Invoice exists\<close>) and the collection, hence the order's
  invoiceNumber and status, is unchanged. For every order whose invoiceNumber is unset, a
  successful call stores the order with the generated invoice number, which no other
  order carries, and with status completed, in the same write.
\<close>

theorem invoice_issued_once:
  "(findById db i = Some dz \<and> truthy (invoiceNumber dz) \<longrightarrow>
      issue_invoice today db i = (BadRequest ''Invoice exists'', db) \<and>
      status_code (fst (issue_invoice today db i)) = 400) \<and>
   (findById dby j = Some dy \<and> \<not> truthy (invoiceNumber dy) \<and>
    issue_invoice today dby j = (Ok du, dbu) \<longrightarrow>
      invoiceNumber du = Some (generateInvoiceNumber today dby) \<and>
      status du = ''completed'' \<and>
      (\<forall>x \<in> set dby. oid x \<noteq> j \<longrightarrow> invoiceNumber x \<noteq> invoiceNumber du) \<and>
      findById dbu j = Some du)"
proof (intro conjI impI)
  assume h: "findById db i = Some dz \<and> truthy (invoiceNumber dz)"
  then show r: "issue_invoice today db i = (BadRequest ''Invoice exists'', db)"
    by (simp add: issue_invoice_rejected)
  then show "status_code (fst (issue_invoice today db i)) = 400" by simp
next
  assume h: "findById dby j = Some dy \<and> \<not> truthy (invoiceNumber dy) \<and>
    issue_invoice today dby j = (Ok du, dbu)"
  then have du: "du = dy\<lparr>invoiceNumber := Some (generateInvoiceNumber today dby),
                          status := ''completed''\<rparr>"
    and sv: "save_existing dby du = Some dbu"
    by (auto elim!: issue_invoice_OkD)
  from du show "invoiceNumber du = Some (generateInvoiceNumber today dby)"
    and "status du = ''completed''" by simp_all
  have oid: "oid du = j" using du h by (auto dest: findById_oid)
  from sv have "index_ok dby du" by (simp add: save_existing_valid)
  with du oid show "\<forall>x \<in> set dby. oid x \<noteq> j \<longrightarrow> invoiceNumber x \<noteq> invoiceNumber du"
    by (auto dest: index_ok_fresh)
  from sv oid h show "findById dbu j = Some du"
    by (auto dest: save_existing_persisted)
qed

theorem invoice_issued_once_witness:
  "findById [invoiced_order] 1 = Some invoiced_order \<and> truthy (invoiceNumber invoiced_order) \<and>
   issue_invoice nov_2026 [invoiced_order] 1 = (BadRequest ''Invoice exists'', [invoiced_order]) \<and>
   findById [two_item_order] 1 = Some two_item_order \<and>
   \<not> truthy (invoiceNumber two_item_order) \<and>
   issue_invoice nov_2026 [two_item_order] 1 = (Ok invoiced_order, [invoiced_order]) \<and>
   invoiceNumber invoiced_order = Some ''INV2026110001'' \<and>
   status invoiced_order = ''completed''"
proof -
  have p: "truthy (invoiceNumber invoiced_order)" "\<not> truthy (invoiceNumber two_item_order)"
    "invoiceNumber invoiced_order = Some ''INV2026110001''"
    by (simp_all add: invoiced_order_def two_item_order_def)
  note t = invoice_issued_once [where db = "[invoiced_order]" and i = 1
      and dz = invoiced_order and today = nov_2026 and dby = "[two_item_order]" and j = 1
      and dy = two_item_order and du = invoiced_order and dbu = "[invoiced_order]"]
  from t find_invoiced find_two_item issue_first_invoice p show ?thesis by simp
qed


section \<open>Order status\<close>

lemma status_enum_truthy: "t \<in> set status_enum \<Longrightarrow> truthy (Some t)"
  by (auto simp: status_enum_def)

lemma apply_update_status:
  "status (apply_update user req dz) =
     (if truthy (ur_status req) then the (ur_status req) else status dz)"
  by (simp add: apply_update_def Let_def split: option.splits)

lemma apply_set_status:
  "t \<in> set status_enum \<Longrightarrow>
     apply_update user (set_status t) dz = dz\<lparr>status := t, processedBy := Some user\<rparr>"
  using status_enum_truthy [of t] by (simp add: apply_update_def set_status_def Let_def)

lemma order_valid_status:
  "order_valid dz \<Longrightarrow> t \<in> set status_enum \<Longrightarrow>
     order_valid (dz\<lparr>status := t, processedBy := u\<rparr>)"
  by (simp add: order_valid_def)

lemma index_ok_status: "index_ok db (dz\<lparr>status := t, processedBy := u\<rparr>) = index_ok db dz"
  by (simp add: index_ok_def)

lemma update_from_completed:
  "update_order 9 [invoiced_order] 1 (set_status ''draft'') = (Ok reopened_order, [reopened_order])"
  by code_simp

lemma update_to_completed:
  "update_order 9 [two_item_order] 1 (set_status ''completed'') =
     (Ok completed_uninvoiced, [completed_uninvoiced])"
  by code_simp

lemma invoiced_order_ok:
  "order_valid invoiced_order" "index_ok [invoiced_order] invoiced_order"
  by code_simp+

text \<open>
  Claim C8, as stated, fails. An update carrying \<^verbatim>\<open>status: 'draft'\<close> moves the invoiced,
  completed order back to draft, and an update carrying \<^verbatim>\<open>status: 'completed'\<close> completes
  a confirmed order that has no invoice number.
\<close>

theorem completed_order_reopened:
  "status invoiced_order = ''completed'' \<and>
   update_order 9 [invoiced_order] 1 (set_status ''draft'') = (Ok reopened_order, [reopened_order]) \<and>
   status reopened_order = ''draft'' \<and>
   status two_item_order = ''confirmed'' \<and>
   update_order 9 [two_item_order] 1 (set_status ''completed'') =
     (Ok completed_uninvoiced, [completed_uninvoiced]) \<and>
   status completed_uninvoiced = ''completed'' \<and> invoiceNumber completed_uninvoiced = None"
  using update_from_completed update_to_completed
  by (simp add: invoiced_order_def reopened_order_def completed_uninvoiced_def two_item_order_def)

text \<open>
  Claim C8, amended. An order update stores whatever status the request carries: from
  any current status of a stored order, each of the five values draft, confirmed,
  processing, completed and cancelled is accepted and stored; an accepted update without
  a status leaves the status as it was, and every stored status is one of the five. No
  order among the statuses is enforced.
\<close>

theorem status_assignment_unrestricted:
  "(findById db i = Some dz \<and> order_valid dz \<and> index_ok db dz \<and> t \<in> set status_enum \<longrightarrow>
      (\<exists>du dbu. update_order user db i (set_status t) = (Ok du, dbu) \<and> status du = t \<and>
                 findById dbu i = Some du)) \<and>
   (findById dby j = Some dy \<and> update_order user dby j req = (Ok dv, dbv) \<longrightarrow>
      status dv = (if truthy (ur_status req) then the (ur_status req) else status dy) \<and>
      status dv \<in> set status_enum)"
proof (intro conjI impI)
  assume h: "findById db i = Some dz \<and> order_valid dz \<and> index_ok db dz \<and> t \<in> set status_enum"
  define du where "du = dz\<lparr>status := t, processedBy := Some user\<rparr>"
  define dbu where "dbu = map (\<lambda>x. if oid x = oid du then du else x) db"
  have a: "apply_update user (set_status t) dz = du"
    using h by (simp add: apply_set_status du_def)
  have v: "order_valid du" "index_ok db du"
    using h by (simp_all add: du_def order_valid_status index_ok_status)
  then have sv: "save_existing db du = Some dbu"
    by (simp add: save_existing_def dbu_def)
  have oid: "oid du = i" using h by (auto simp: du_def dest: findById_oid)
  have "update_order user db i (set_status t) = (Ok du, dbu)"
    using h a sv by (simp add: update_order_def)
  moreover have "status du = t" by (simp add: du_def)
  moreover have "findById dbu i = Some du"
    using sv oid h by (auto dest: save_existing_persisted)
  ultimately show "\<exists>du dbu. update_order user db i (set_status t) = (Ok du, dbu) \<and>
      status du = t \<and> findById dbu i = Some du"
    by blast
next
  assume h: "findById dby j = Some dy \<and> update_order user dby j req = (Ok dv, dbv)"
  then have dv: "dv = apply_update user req dy" and sv: "save_existing dby dv = Some dbv"
    by (auto elim!: update_order_OkD)
  from dv show "status dv = (if truthy (ur_status req) then the (ur_status req) else status dy)"
    by (simp add: apply_update_status)
  from sv show "status dv \<in> set status_enum"
    by (auto dest!: save_existing_valid simp: order_valid_def)
qed

theorem status_assignment_unrestricted_witness:
  "findById [invoiced_order] 1 = Some invoiced_order \<and> order_valid invoiced_order \<and>
   index_ok [invoiced_order] invoiced_order \<and> ''draft'' \<in> set status_enum \<and>
   status invoiced_order = ''completed'' \<and>
   update_order 9 [invoiced_order] 1 (set_status ''draft'') = (Ok reopened_order, [reopened_order]) \<and>
   status reopened_order = ''draft'' \<and> truthy (ur_status (set_status ''draft'')) \<and>
   (\<exists>du dbu. update_order 9 [invoiced_order] 1 (set_status ''draft'') = (Ok du, dbu) \<and>
              status du = ''draft'' \<and> findById dbu 1 = Some du)"
proof -
  have p: "''draft'' \<in> set status_enum" "status invoiced_order = ''completed''"
    "truthy (ur_status (set_status ''draft''))"
    by (simp_all add: status_enum_def invoiced_order_def set_status_def)
  note t = status_assignment_unrestricted [where db = "[invoiced_order]" and i = 1
      and dz = invoiced_order and t = "''draft''" and user = 9 and dby = "[invoiced_order]"
      and j = 1 and dy = invoiced_order and req = "set_status ''draft''"
      and dv = reopened_order and dbv = "[reopened_order]"]
  from t find_invoiced invoiced_order_ok update_from_completed p show ?thesis
    by (simp add: set_status_def)
qed

section \<open>Quantity validation at order creation\<close>

text \<open>
  The only check on an item's quantity is the validator \<^verbatim>\<open>min: [1, ...]\<close> of
  \<^verbatim>\<open>orderItemSchema.quantity\<close>, run by \<^verbatim>\<open>order.save()\<close>: no order with a quantity
  below one is created.
\<close>

lemma created_quantities:
  assumes "create_order today user ps db req = (Created d, db')"
  shows "\<forall>it \<in> set (cr_items req). 1 \<le> req_quantity it"
proof -
  from assms obtain acc where acc: "process_items ps (cr_items req) (0, 0, []) = Inr acc"
    and d: "d = new_order (new_oid db) user (generateOrderNumber today db)
           (req\<lparr>cr_customer :=
              (cr_customer req)\<lparr>customer_name := trim (customer_name (cr_customer req))\<rparr>\<rparr>) acc"
    and sv: "save_new db d = Some db'"
    by (rule create_order_CreatedD)
  obtain s g pr where [simp]: "acc = (s, g, pr)" by (cases acc)
  from process_items_acc [of ps "cr_items req" 0 0 "[]" s g pr] acc
  have l: "list_all2 (line_priced ps) (cr_items req) pr" by auto
  from sv have "order_valid d" by (simp add: save_new_valid)
  then have "list_all order_item_valid pr" by (simp add: order_valid_def d new_order_fields)
  with l show ?thesis
    by (induction rule: list_all2_induct)
       (auto simp: line_priced_def order_item_valid_def split: option.splits)
qed

lemma quantity_below_one_not_created:
  assumes "it \<in> set (cr_items req)" "req_quantity it < 1"
  shows "(\<forall>d. fst (create_order today user ps db req) \<noteq> Created d) \<and>
         snd (create_order today user ps db req) = db"
proof -
  have n: "fst (create_order today user ps db req) \<noteq> Created d" for d
  proof
    assume "fst (create_order today user ps db req) = Created d"
    then have "create_order today user ps db req =
        (Created d, snd (create_order today user ps db req))"
      by (metis prod.collapse)
    from created_quantities [OF this] assms show False by force
  qed
  moreover have "snd (create_order today user ps db req) = db"
    using create_order_unchanged [of today user ps db req
        "fst (create_order today user ps db req)" "snd (create_order today user ps db req)"] n
    by simp
  ultimately show ?thesis by blast
qed

text \<open>
  Claim C9 says that an order-creation request with an item of zero or negative quantity
  fails with a caller-correctable validation error of the 4xx class and creates no order.
  The handler at such a request, quantity 0 of the known product \<^verbatim>\<open>s1\<close>: no order is
  created, and the answer is status 500.
\<close>

theorem zero_quantity_server_error:
  "create_order nov_2026 9 seed_products [] zero_quantity_req = (ServerError, []) \<and>
   status_code (fst (create_order nov_2026 9 seed_products [] zero_quantity_req)) = 500"
  by code_simp


section \<open>Tax amounts are not rounded\<close>









section \<open>Order and invoice numbers\<close>

lemma digit_char_props:
  assumes "d < 10"
  shows "is_digit (digit_char d)" "digit_val (digit_char d) = d"
    "0 < d \<Longrightarrow> digit_char d \<noteq> CHR ''0''"
proof -
  from assms have "d \<in> {0, 1, 2, 3, 4, 5, 6, 7, 8, 9}" by auto
  then show "is_digit (digit_char d)" "digit_val (digit_char d) = d"
    "0 < d \<Longrightarrow> digit_char d \<noteq> CHR ''0''"
    by (auto simp: digit_char_def is_digit_def digit_val_def)
qed

lemma parse_nat_snoc: "parse_nat (xs @ [c]) = 10 * parse_nat xs + digit_val c"
  by (simp add: parse_nat_def)

lemma String_of_nonempty: "String_of n \<noteq> []"
  by (subst String_of.simps) simp

lemma String_of_digits: "list_all is_digit (String_of n)"
proof (induction n rule: String_of.induct)
  case (1 n)
  show ?case
  proof (cases "n < 10")
    case True
    then show ?thesis by (subst String_of.simps) (simp add: digit_char_props)
  next
    case False
    with 1 show ?thesis by (subst String_of.simps) (simp add: digit_char_props)
  qed
qed

lemma parse_String_of: "parse_nat (String_of n) = n"
proof (induction n rule: String_of.induct)
  case (1 n)
  show ?case
  proof (cases "n < 10")
    case True
    then show ?thesis
      by (subst String_of.simps) (simp add: parse_nat_def digit_char_props)
  next
    case False
    with 1 have "parse_nat (String_of (n div 10)) = n div 10" by simp
    with False show ?thesis
      by (subst String_of.simps) (simp add: parse_nat_snoc digit_char_props)
  qed
qed

lemma String_of_no_leading_zero: "0 < n \<Longrightarrow> hd (String_of n) \<noteq> CHR ''0''"
proof (induction n rule: String_of.induct)
  case (1 n)
  show ?case
  proof (cases "n < 10")
    case True
    with "1.prems" show ?thesis by (subst String_of.simps) (simp add: digit_char_props)
  next
    case False
    with 1 have "hd (String_of (n div 10)) \<noteq> CHR ''0''" by simp
    with False show ?thesis
      by (subst String_of.simps) (simp add: String_of_nonempty)
  qed
qed

lemma length_String_of:
  "length (String_of n) = (if n < 10 then 1 else Suc (length (String_of (n div 10))))"
  by (subst String_of.simps) simp

lemma length_String_of_year: "1000 \<le> n \<Longrightarrow> n \<le> 9999 \<Longrightarrow> length (String_of n) = 4"
proof -
  assume a: "1000 \<le> n" "n \<le> 9999"
  then have "\<not> n < 10" "\<not> n div 10 < 10" "\<not> n div 10 div 10 < 10" "n div 10 div 10 div 10 < 10"
    by simp_all
  then show ?thesis
    by (simp add: length_String_of [of n] length_String_of [of "n div 10"]
        length_String_of [of "n div 10 div 10"] length_String_of [of "n div 10 div 10 div 10"])
qed

lemma length_String_of_month:
  assumes "n < 100"
  shows "length (String_of n) \<le> 2"
proof (cases "n < 10")
  case True
  then show ?thesis by (simp add: length_String_of [of n])
next
  case False
  moreover from assms have "n div 10 < 10" by simp
  ultimately show ?thesis
    by (simp add: length_String_of [of n] length_String_of [of "n div 10"])
qed

lemma parse_zeros: "foldl (\<lambda>a c. 10 * a + digit_val c) 0 (replicate k (CHR ''0'')) = 0"
  by (induction k) (simp_all add: digit_val_def)

lemma parse_padStart: "parse_nat (padStart w s) = parse_nat s"
  by (simp add: parse_nat_def padStart_def parse_zeros)

lemma length_padStart: "length (padStart w s) = max w (length s)"
  by (simp add: padStart_def)

lemma zero_padded_padStart:
  assumes "0 < n"
  shows "zero_padded w n (padStart w (String_of n))"
proof -
  have "is_digit (CHR ''0'')" by (simp add: is_digit_def)
  then have "list_all is_digit (padStart w (String_of n))"
    using String_of_digits [of n] by (auto simp: padStart_def list_all_iff)
  moreover have "w < length (padStart w (String_of n)) \<longrightarrow>
      hd (padStart w (String_of n)) \<noteq> CHR ''0''"
    using String_of_no_leading_zero [OF assms] by (auto simp: padStart_def)
  ultimately show ?thesis
    by (simp add: zero_padded_def parse_padStart parse_String_of length_padStart)
qed

lemma zero_padded_year:
  assumes "1000 \<le> n" "n \<le> 9999"
  shows "zero_padded 4 n (String_of n)"
  using zero_padded_padStart [of n 4] assms length_String_of_year [OF assms]
  by (simp add: padStart_def)

lemma period_prefix_parts:
  assumes "1000 \<le> getFullYear today" "getFullYear today \<le> 9999" "getMonth today < 12"
  shows "\<exists>y m. period_prefix scope today = scope @ y @ m \<and>
           length y = 4 \<and> zero_padded 4 (getFullYear today) y \<and>
           length m = 2 \<and> zero_padded 2 (getMonth today + 1) m"
proof -
  let ?y = "String_of (getFullYear today)"
  let ?m = "padStart 2 (String_of (getMonth today + 1))"
  have "length ?m = 2"
    using length_String_of_month [of "getMonth today + 1"] assms(3)
    by (simp add: length_padStart)
  moreover have "zero_padded 2 (getMonth today + 1) ?m"
    by (rule zero_padded_padStart) simp
  moreover have "length ?y = 4" "zero_padded 4 (getFullYear today) ?y"
    using assms by (simp_all add: length_String_of_year zero_padded_year)
  ultimately show ?thesis
    unfolding period_prefix_def by blast
qed

text \<open>
  Claim C3. For a date whose year has four digits, the generated order number is
  \<^verbatim>\<open>ORD\<close>, and the generated invoice number is \<^verbatim>\<open>INV\<close>, followed by the four-digit year,
  the month number (January is 1) zero-padded to two digits, and the ordinal zero-padded
  to at least four digits, where the ordinal is one more than the number of stored
  identifiers of that scope that begin with the same prefix, year and month.
\<close>

theorem sequence_number_format:
  assumes "1000 \<le> getFullYear today" "getFullYear today \<le> 9999" "getMonth today < 12"
  shows "(\<exists>y m k. generateOrderNumber today db = ''ORD'' @ y @ m @ k \<and>
            length y = 4 \<and> zero_padded 4 (getFullYear today) y \<and>
            length m = 2 \<and> zero_padded 2 (getMonth today + 1) m \<and>
            zero_padded 4
              (length (filter (\<lambda>d. startsWith (''ORD'' @ y @ m) (orderNumber d)) db) + 1) k) \<and>
         (\<exists>y m k. generateInvoiceNumber today db = ''INV'' @ y @ m @ k \<and>
            length y = 4 \<and> zero_padded 4 (getFullYear today) y \<and>
            length m = 2 \<and> zero_padded 2 (getMonth today + 1) m \<and>
            zero_padded 4
              (length (filter (\<lambda>d. case invoiceNumber d of None \<Rightarrow> False
                                   | Some n \<Rightarrow> startsWith (''INV'' @ y @ m) n) db) + 1) k)"
proof
  from period_prefix_parts [OF assms, of "''ORD''"] obtain y m where
    p: "period_prefix ''ORD'' today = ''ORD'' @ y @ m" and
    ym: "length y = 4" "zero_padded 4 (getFullYear today) y"
        "length m = 2" "zero_padded 2 (getMonth today + 1) m"
    by blast
  let ?c = "length (filter (\<lambda>d. startsWith (''ORD'' @ y @ m) (orderNumber d)) db)"
  have "generateOrderNumber today db = ''ORD'' @ y @ m @ padStart 4 (String_of (?c + 1))"
    unfolding generateOrderNumber_def Let_def p by (simp only: append_assoc)
  moreover have "zero_padded 4 (?c + 1) (padStart 4 (String_of (?c + 1)))"
    by (rule zero_padded_padStart) simp
  ultimately show "\<exists>y m k. generateOrderNumber today db = ''ORD'' @ y @ m @ k \<and>
            length y = 4 \<and> zero_padded 4 (getFullYear today) y \<and>
            length m = 2 \<and> zero_padded 2 (getMonth today + 1) m \<and>
            zero_padded 4
              (length (filter (\<lambda>d. startsWith (''ORD'' @ y @ m) (orderNumber d)) db) + 1) k"
    using ym by blast
next
  from period_prefix_parts [OF assms, of "''INV''"] obtain y m where
    p: "period_prefix ''INV'' today = ''INV'' @ y @ m" and
    ym: "length y = 4" "zero_padded 4 (getFullYear today) y"
        "length m = 2" "zero_padded 2 (getMonth today + 1) m"
    by blast
  let ?c = "length (filter (\<lambda>d. case invoiceNumber d of None \<Rightarrow> False
                                   | Some n \<Rightarrow> startsWith (''INV'' @ y @ m) n) db)"
  have "generateInvoiceNumber today db = ''INV'' @ y @ m @ padStart 4 (String_of (?c + 1))"
    unfolding generateInvoiceNumber_def Let_def p by (simp only: append_assoc)
  moreover have "zero_padded 4 (?c + 1) (padStart 4 (String_of (?c + 1)))"
    by (rule zero_padded_padStart) simp
  ultimately show "\<exists>y m k. generateInvoiceNumber today db = ''INV'' @ y @ m @ k \<and>
            length y = 4 \<and> zero_padded 4 (getFullYear today) y \<and>
            length m = 2 \<and> zero_padded 2 (getMonth today + 1) m \<and>
            zero_padded 4
              (length (filter (\<lambda>d. case invoiceNumber d of None \<Rightarrow> False
                                   | Some n \<Rightarrow> startsWith (''INV'' @ y @ m) n) db) + 1) k"
    using ym by blast
qed


lemma second_order_number:
  "generateOrderNumber nov_2026 [two_item_order] = ''ORD2026110002''"
  by code_simp

lemma second_invoice_number:
  "generateInvoiceNumber nov_2026 [invoiced_order] = ''INV2026110002''"
  by code_simp

theorem sequence_number_format_witness:
  "1000 \<le> getFullYear nov_2026 \<and> getFullYear nov_2026 \<le> 9999 \<and> getMonth nov_2026 < 12 \<and>
   generateOrderNumber nov_2026 [two_item_order] = ''ORD'' @ ''2026'' @ ''11'' @ ''0002'' \<and>
   generateInvoiceNumber nov_2026 [invoiced_order] = ''INV'' @ ''2026'' @ ''11'' @ ''0002'' \<and>
   (\<exists>y m k. generateOrderNumber nov_2026 [two_item_order] = ''ORD'' @ y @ m @ k \<and>
      length y = 4 \<and> zero_padded 4 2026 y \<and> length m = 2 \<and> zero_padded 2 11 m \<and>
      zero_padded 4
        (length (filter (\<lambda>d. startsWith (''ORD'' @ y @ m) (orderNumber d)) [two_item_order])
         + 1) k)"
proof -
  have h: "1000 \<le> getFullYear nov_2026" "getFullYear nov_2026 \<le> 9999" "getMonth nov_2026 < 12"
    by (simp_all add: nov_2026_def)
  have e: "getFullYear nov_2026 = 2026" "getMonth nov_2026 + 1 = 11"
    by (simp_all add: nov_2026_def)
  from sequence_number_format [OF h, of "[two_item_order]"] second_order_number
    second_invoice_number h
  show ?thesis unfolding e by simp
qed


section \<open>Stock movements\<close>

lemma findOne_save_product:
  "findOne ps pid = Some p \<Longrightarrow> p_id q = pid \<Longrightarrow> p_oid q = p_oid p \<Longrightarrow>
     findOne (save_product ps q) pid = Some q"
  unfolding findOne_def save_product_def by (induction ps) (auto split: if_splits)

lemma findOne_id: "findOne ps pid = Some p \<Longrightarrow> p_id p = pid"
  unfolding findOne_def by (induction ps) (auto split: if_splits)


lemma stock_out_CreatedD:
  assumes "stock_out user ps ms req = (Created m, ps', ms')"
  obtains p where "findOne ps (so_productId req) = Some p"
    "previousStock m = (if inStock p then so_quantity req else 0)"
    "newStock m = max 0 (previousStock m - so_quantity req)"
    "mv_type m = ''stock_out''" "mv_quantity m = so_quantity req" "1 \<le> so_quantity req"
    "ps' = (if newStock m \<le> 0 then save_product ps (p\<lparr>inStock := False\<rparr>) else ps)"
    "ms' = ms @ [m]"
  using assms
  by (auto simp: stock_out_def Let_def split: if_splits option.splits)



lemma run_ten_out:
  "stock_out 9 pipes_in_stock [four_in_movement] ten_out =
     (Created ten_out_movement, pipes_out_of_stock, [four_in_movement, ten_out_movement])"
  by code_simp


lemma run_two_damaged:
  "stock_adjustment 9 pipes_in_stock [] two_damaged =
     (Created two_damaged_movement, pipes_out_of_stock, [two_damaged_movement])"
  by code_simp


lemma find_pipes: "findOne pipes_in_stock ''s2'' = Some (hd pipes_in_stock)"
  "findOne pipes_out_of_stock ''s2'' = Some (hd pipes_out_of_stock)"
  by code_simp+





text \<open>
  Claim C10. For every accepted stock-out on a product whose flag \<^verbatim>\<open>inStock\<close> is true,
  whatever quantity is requested, the recorded previousStock is that quantity, newStock
  is 0, and afterwards the product is stored as out of stock.
\<close>

theorem stock_out_when_in_stock:
  assumes "stock_out user ps ms req = (Created m, ps', ms')"
    "findOne ps (so_productId req) = Some p" "inStock p"
  shows "previousStock m = so_quantity req \<and> newStock m = 0 \<and>
         findOne ps' (so_productId req) = Some (p\<lparr>inStock := False\<rparr>) \<and>
         \<not> inStock (the (findOne ps' (so_productId req)))"
proof -
  from assms(1,2) have a: "previousStock m = (if inStock p then so_quantity req else 0)"
    "newStock m = max 0 (previousStock m - so_quantity req)"
    "ps' = (if newStock m \<le> 0 then save_product ps (p\<lparr>inStock := False\<rparr>) else ps)"
    by (auto elim!: stock_out_CreatedD)
  from a assms(3) have b: "previousStock m = so_quantity req" "newStock m = 0" by simp_all
  with a have "ps' = save_product ps (p\<lparr>inStock := False\<rparr>)" by simp
  moreover have "p_id (p\<lparr>inStock := False\<rparr>) = so_productId req"
    using findOne_id [OF assms(2)] by simp
  ultimately have "findOne ps' (so_productId req) = Some (p\<lparr>inStock := False\<rparr>)"
    using assms(2) by (simp add: findOne_save_product)
  with b show ?thesis by simp
qed

theorem stock_out_when_in_stock_witness:
  "stock_out 9 pipes_in_stock [four_in_movement] ten_out =
     (Created ten_out_movement, pipes_out_of_stock, [four_in_movement, ten_out_movement]) \<and>
   findOne pipes_in_stock (so_productId ten_out) = Some (hd pipes_in_stock) \<and>
   inStock (hd pipes_in_stock) \<and>
   previousStock ten_out_movement = so_quantity ten_out \<and> so_quantity ten_out = 10 \<and>
   newStock ten_out_movement = 0 \<and>
   \<not> inStock (the (findOne pipes_out_of_stock (so_productId ten_out)))"
proof -
  have f: "findOne pipes_in_stock (so_productId ten_out) = Some (hd pipes_in_stock)"
    using find_pipes by (simp add: ten_out_def)
  have q: "inStock (hd pipes_in_stock)" "so_quantity ten_out = 10"
    by (simp_all add: pipes_in_stock_def ten_out_def)
  from stock_out_when_in_stock [OF run_ten_out f q(1)] run_ten_out f q
  show ?thesis by simp
qed

end
